theory Spec2Isabelle
  imports Main "HOL-Library.Sublist"
begin

section \<open>Data model (types/index.ts)\<close>

text \<open>
  The records follow the TypeScript types of the repository. An optional property
  (\<^verbatim>\<open>content?: string\<close>) is an \<open>option\<close>, with \<open>None\<close> for \<^verbatim>\<open>undefined\<close>.
  Numbers that only ever hold counters are \<open>int\<close>. Objects are modelled by value: where
  a function of the source mutates an object it was given, the model returns the object
  as the mutation leaves it.
\<close>

record SourceReference =
  url :: string
  title :: string

text \<open>
  The declared type of a section's \<open>content\<close> is \<^verbatim>\<open>string | undefined\<close>. One
  function, \<open>compileFinalReport\<close>, can assign to it a value that is not a string: the
  value that a property name such as \<^verbatim>\<open>constructor\<close> has in every plain object.
  \<open>Inherited\<close> is that value, for the name of the section that holds it: the value of
  \<^verbatim>\<open>({})[section.name]\<close>.
\<close>

datatype ContentValue = Text string | Inherited

record Section =
  name :: string
  description :: string
  research :: bool
  content :: "ContentValue option"
  sources :: "SourceReference list option"

datatype SearchQuery = SearchQuery (search_query: string)

datatype Grade = Pass | Fail

record Feedback =
  grade :: Grade
  follow_up_queries :: "SearchQuery list"

text \<open>
  \<open>ReportState\<close> and \<open>SectionState\<close> share the properties \<open>topic\<close> and
  \<open>report_sections_from_research\<close>; they are declared once, in a common parent record.
  The optional \<open>completed_sections\<close> of \<open>SectionState\<close>, which no stage reads from a
  section state, is not declared.
\<close>

record StateCommon =
  topic :: string
  report_sections_from_research :: "string option"

record ReportState = StateCommon +
  feedback_on_report_plan :: "string list option"
  sections :: "Section list"
  completed_sections :: "Section list"
  final_report :: "string option"

record SectionState = StateCommon +
  "section" :: Section
  search_iterations :: int
  search_queries :: "SearchQuery list"
  source_str :: string

text \<open>
  A \<open>Command\<close> is \<^verbatim>\<open>{ goto, update? }\<close>. The update is a JavaScript object whose
  properties hold values of several types: it is a finite map from property names to
  \<open>jsvalue\<close>. A property that is present with the value \<^verbatim>\<open>undefined\<close> maps to
  \<open>JUndefined\<close>; an absent property maps to \<open>None\<close>.
\<close>

datatype jsvalue =
    JUndefined
  | JStr string
  | JNum int
  | JStrings "string list"
  | JSection Section
  | JSections "Section list"
  | JQueries "SearchQuery list"

type_synonym jsobject = "string \<rightharpoonup> jsvalue"

record Command =
  goto :: string
  update :: "jsobject option"

section \<open>routeTasks (workflows/flow.ts)\<close>

text \<open>
  The scan \<^verbatim>\<open>for (const section of state.sections)\<close> with
  \<^verbatim>\<open>state.completed_sections?.some(cs => cs.name === section.name)\<close> and
  \<^verbatim>\<open>break\<close> at the first section that is not completed. The result \<open>None\<close> is the
  \<^verbatim>\<open>null\<close> that \<^verbatim>\<open>firstUncompletedSection\<close> keeps when the scan finds nothing.
\<close>

definition isCompleted :: "Section list \<Rightarrow> Section \<Rightarrow> bool" where
  "isCompleted completed s = list_ex (\<lambda>cs. name cs = name s) completed"

fun firstUncompletedSection :: "Section list \<Rightarrow> Section list \<Rightarrow> Section option" where
  "firstUncompletedSection completed [] = None"
| "firstUncompletedSection completed (s # rest) =
     (if \<not> isCompleted completed s then Some s
      else firstUncompletedSection completed rest)"

text \<open>How an optional property of the state is copied into an update object.\<close>

definition js_opt_strings :: "string list option \<Rightarrow> jsvalue" where
  "js_opt_strings v = (case v of None \<Rightarrow> JUndefined | Some l \<Rightarrow> JStrings l)"

definition js_opt_str :: "string option \<Rightarrow> jsvalue" where
  "js_opt_str v = (case v of None \<Rightarrow> JUndefined | Some t \<Rightarrow> JStr t)"

text \<open>
  \<^verbatim>\<open>state.report_sections_from_research || ""\<close>: \<^verbatim>\<open>undefined\<close> and the empty string
  are both falsy, and both give the empty string.
\<close>

definition str_or_empty :: "string option \<Rightarrow> string" where
  "str_or_empty v = (case v of None \<Rightarrow> [] | Some t \<Rightarrow> t)"

definition compile_directive :: Command where
  "compile_directive = \<lparr>goto = ''compile-final-report'', update = None\<rparr>"

definition research_update :: "ReportState \<Rightarrow> Section \<Rightarrow> jsobject" where
  "research_update state currentSection =
     [''topic'' \<mapsto> JStr (topic state),
      ''section'' \<mapsto> JSection currentSection,
      ''search_iterations'' \<mapsto> JNum 0,
      ''sections'' \<mapsto> JSections (sections state),
      ''completed_sections'' \<mapsto> JSections (completed_sections state),
      ''feedback_on_report_plan'' \<mapsto> js_opt_strings (feedback_on_report_plan state),
      ''report_sections_from_research'' \<mapsto> js_opt_str (report_sections_from_research state)]"

definition final_update :: "ReportState \<Rightarrow> Section \<Rightarrow> jsobject" where
  "final_update state currentSection =
     [''topic'' \<mapsto> JStr (topic state),
      ''section'' \<mapsto> JSection currentSection,
      ''report_sections_from_research'' \<mapsto>
         JStr (str_or_empty (report_sections_from_research state)),
      ''sections'' \<mapsto> JSections (sections state),
      ''completed_sections'' \<mapsto> JSections (completed_sections state),
      ''feedback_on_report_plan'' \<mapsto> js_opt_strings (feedback_on_report_plan state)]"

text \<open>
  \<open>routeTasks\<close>, branch by branch. \<open>sections\<close> and \<open>completed_sections\<close> are arrays in
  \<open>ReportState\<close>, so the guards \<^verbatim>\<open>!state.sections\<close> and
  \<^verbatim>\<open>state.completed_sections ? ... : 0\<close> reduce to the tests on the length, and
  \<^verbatim>\<open>state.completed_sections || []\<close> to the array itself. The function is
  \<^verbatim>\<open>async\<close> and has no rejecting path: its value is the resolved \<open>Command\<close>.
\<close>

definition routeTasks :: "ReportState \<Rightarrow> Command" where
  "routeTasks state =
     (let completedSectionsCount = length (completed_sections state) in
      if sections state = [] then compile_directive
      else if completedSectionsCount = length (sections state) then compile_directive
      else
        (case firstUncompletedSection (completed_sections state) (sections state) of
           None \<Rightarrow> compile_directive
         | Some currentSection \<Rightarrow>
             if research currentSection
             then \<lparr>goto = ''generate-queries'',
                   update = Some (research_update state currentSection)\<rparr>
             else \<lparr>goto = ''write-final-sections'',
                   update = Some (final_update state currentSection)\<rparr>))"


text \<open>Concrete report states used to evaluate \<open>routeTasks\<close>.\<close>

definition intro_section :: Section where
  "intro_section = \<lparr>name = ''Introduction'', description = ''Overview'', research = False,
      content = None, sources = None\<rparr>"

definition body_section :: Section where
  "body_section = \<lparr>name = ''Body'', description = ''Main part'', research = True,
      content = None, sources = None\<rparr>"

definition conclusion_section :: Section where
  "conclusion_section = \<lparr>name = ''Conclusion'', description = ''Summary'', research = False,
      content = None, sources = None\<rparr>"

definition report_in_progress :: ReportState where
  "report_in_progress = \<lparr>topic = ''X'', report_sections_from_research = None,
      feedback_on_report_plan = Some [],
      sections = [intro_section, body_section, conclusion_section],
      completed_sections = [intro_section\<lparr>content := Some (Text ''Hello'')\<rparr>],
      final_report = None\<rparr>"

definition report_all_done :: ReportState where
  "report_all_done = \<lparr>topic = ''X'', report_sections_from_research = None,
      feedback_on_report_plan = Some [],
      sections = [intro_section],
      completed_sections = [intro_section\<lparr>content := Some (Text ''Hello'')\<rparr>],
      final_report = None\<rparr>"

text \<open>Two planned sections carry the same name, and one section of that name is completed.\<close>

definition report_repeated_name :: ReportState where
  "report_repeated_name = \<lparr>topic = ''X'', report_sections_from_research = None,
      feedback_on_report_plan = Some [],
      sections = [body_section, body_section\<lparr>description := ''Second part''\<rparr>],
      completed_sections = [body_section\<lparr>content := Some (Text ''Text'')\<rparr>],
      final_report = None\<rparr>"

section \<open>The section refinement stages (agents/graphAgent.ts)\<close>

text \<open>
  Errors are values. \<open>Thrown\<close> is an error raised by an external capability (the search
  gateway or the language model); the others are the errors the workflow graph throws.
\<close>

datatype error =
    Thrown string
  | EntryPointNotSet
  | NodeNotFound string
  | NextNodeNotFound string string
  | NoDirectEdge string
  | InvalidResult string

text \<open>
  The part of \<open>Configuration\<close> (tools/config.ts) the stages read. The values come from the
  defaults (\<open>max_search_depth = 2\<close>), from the environment through \<^verbatim>\<open>parseInt\<close>, or
  from the caller, so \<open>max_search_depth\<close> is any integer. (A setting that is not a number
  is outside this model.)
\<close>

record Configuration =
  number_of_queries :: int
  max_search_depth :: int

text \<open>
  What \<^verbatim>\<open>selectAndExecuteSearch\<close> resolves to: \<^verbatim>\<open>{ formattedOutput, sources }\<close>.
  The property \<^verbatim>\<open>sources\<close> of this object is the field \<open>foundSources\<close>.
\<close>

record SearchOutput =
  formattedOutput :: string
  foundSources :: "SourceReference list"

text \<open>
  The insertion loop of \<open>searchWeb\<close>:
  \<^verbatim>\<open>for (const source of searchResult.sources)
     if (!existingUrls.has(source.url)) { sources.push(source); existingUrls.add(source.url); }\<close>
  The first argument is the array being extended and the set of URLs seen so far.
\<close>

fun pushNewSources ::
  "SourceReference list \<times> string set \<Rightarrow> SourceReference list
     \<Rightarrow> SourceReference list \<times> string set" where
  "pushNewSources (acc, existingUrls) [] = (acc, existingUrls)"
| "pushNewSources (acc, existingUrls) (source # rest) =
     (if url source \<notin> existingUrls
      then pushNewSources (acc @ [source], insert (url source) existingUrls) rest
      else pushNewSources (acc, existingUrls) rest)"

text \<open>
  The block of \<open>searchWeb\<close> that updates \<^verbatim>\<open>state.section.sources\<close> in place. It runs
  only when the search returned at least one source; then a missing \<open>sources\<close> array is
  created empty first. (\<open>section\<close> is a required property of \<open>SectionState\<close>, so the guard
  \<^verbatim>\<open>state.section &&\<close> holds.)
\<close>

definition addSources :: "Section \<Rightarrow> SourceReference list \<Rightarrow> Section" where
  "addSources sec found =
     (if found = [] then sec
      else
        (let current = (case sources sec of None \<Rightarrow> [] | Some l \<Rightarrow> l);
             existingUrls = set (map url current)
         in sec\<lparr>sources := Some (fst (pushNewSources (current, existingUrls) found))\<rparr>))"

text \<open>
  \<open>searchWeb\<close>. The first argument is the outcome of the call of the search gateway
  (\<^verbatim>\<open>await selectAndExecuteSearch(...)\<close>), which rejects for an unsupported provider.
  The result is the state as the in-place update of the section leaves it, and the
  partial state the function returns.
\<close>

definition searchWeb ::
  "error + SearchOutput \<Rightarrow> SectionState \<Rightarrow> error + SectionState \<times> jsobject" where
  "searchWeb searchResult state =
     (case searchResult of
        Inl e \<Rightarrow> Inl e
      | Inr res \<Rightarrow>
          Inr (state\<lparr>section := addSources (section state) (foundSources res)\<rparr>,
               [''source_str'' \<mapsto> JStr (formattedOutput res),
                ''search_iterations'' \<mapsto> JNum (search_iterations state + 1)]))"

text \<open>
  \<open>writeSection\<close>. The second and third arguments are the outcomes of the two calls of the
  generation capability, in the order of the source: the writer's text, then the
  grader's \<open>Feedback\<close> (either call rejects when the model cannot be initialised or the
  generation fails). The section's \<open>content\<close> is assigned in place before the grading;
  the result holds the state with that assignment. When a call rejects, \<open>writeSection\<close>
  rejects and the run of the workflow ends with that error. The scan of the written text
  for links only logs a warning and is left out.
\<close>

definition writeSection ::
  "Configuration \<Rightarrow> error + string \<Rightarrow> error + Feedback \<Rightarrow> SectionState
     \<Rightarrow> error + SectionState \<times> Command" where
  "writeSection configuration sectionContentResult feedbackResult state =
     (case sectionContentResult of
        Inl e \<Rightarrow> Inl e
      | Inr text \<Rightarrow>
          (let sec = (section state)\<lparr>content := Some (Text text)\<rparr>;
               state' = state\<lparr>section := sec\<rparr>
           in case feedbackResult of
                Inl e \<Rightarrow> Inl e
              | Inr feedback \<Rightarrow>
                  if grade feedback = Pass
                     \<or> search_iterations state \<ge> max_search_depth configuration
                  then Inr (state',
                        \<lparr>goto = ''END'',
                         update = Some [''completed_sections'' \<mapsto> JSections [sec]]\<rparr>)
                  else Inr (state',
                        \<lparr>goto = ''search-web'',
                         update = Some [''search_queries'' \<mapsto> JQueries (follow_up_queries feedback),
                                        ''section'' \<mapsto> JSection sec]\<rparr>)))"

text \<open>
  The object spread \<^verbatim>\<open>{ ...state, ...update }\<close>, read through the properties of
  \<open>SectionState\<close>: a property the update holds replaces the state's.
\<close>

definition mergeSectionState :: "SectionState \<Rightarrow> jsobject \<Rightarrow> SectionState" where
  "mergeSectionState state upd =
     state\<lparr>topic := (case upd ''topic'' of Some (JStr t) \<Rightarrow> t | _ \<Rightarrow> topic state),
           report_sections_from_research :=
             (case upd ''report_sections_from_research'' of
                Some (JStr t) \<Rightarrow> Some t
              | Some JUndefined \<Rightarrow> None
              | _ \<Rightarrow> report_sections_from_research state),
           section := (case upd ''section'' of Some (JSection s) \<Rightarrow> s | _ \<Rightarrow> section state),
           search_iterations :=
             (case upd ''search_iterations'' of Some (JNum n) \<Rightarrow> n | _ \<Rightarrow> search_iterations state),
           search_queries :=
             (case upd ''search_queries'' of Some (JQueries q) \<Rightarrow> q | _ \<Rightarrow> search_queries state),
           source_str :=
             (case upd ''source_str'' of Some (JStr t) \<Rightarrow> t | _ \<Rightarrow> source_str state)\<rparr>"

definition updateOf :: "Command \<Rightarrow> jsobject" where
  "updateOf command = (case update command of None \<Rightarrow> Map.empty | Some u \<Rightarrow> u)"

text \<open>The sources a section holds; a missing array holds none.\<close>

definition sectionSources :: "Section \<Rightarrow> SourceReference list" where
  "sectionSources sec = (case sources sec of None \<Rightarrow> [] | Some l \<Rightarrow> l)"

text \<open>
  A sequence of \<open>search-web\<close> passes on one section state, each followed by the merge of
  the returned partial state; one search output per pass.
\<close>

fun searchPasses :: "SearchOutput list \<Rightarrow> SectionState \<Rightarrow> SectionState" where
  "searchPasses [] state = state"
| "searchPasses (res # rest) state =
     (case searchWeb (Inr res) state of
        Inl e \<Rightarrow> state
      | Inr (state1, partialState) \<Rightarrow> searchPasses rest (mergeSectionState state1 partialState))"

text \<open>Concrete inputs of the refinement stages.\<close>

definition fresh_section_state :: SectionState where
  "fresh_section_state = \<lparr>topic = ''X'', report_sections_from_research = None,
      section = body_section, search_iterations = 0,
      search_queries = [SearchQuery ''first query''], source_str = []\<rparr>"

definition source_a :: SourceReference where
  "source_a = \<lparr>url = ''https://a.example'', title = ''A''\<rparr>"

definition source_b :: SourceReference where
  "source_b = \<lparr>url = ''https://b.example'', title = ''B''\<rparr>"

definition default_configuration :: Configuration where
  "default_configuration = \<lparr>number_of_queries = 4, max_search_depth = 2\<rparr>"

definition zero_depth_configuration :: Configuration where
  "zero_depth_configuration = \<lparr>number_of_queries = 4, max_search_depth = 0\<rparr>"

definition source_c :: SourceReference where
  "source_c = \<lparr>url = ''https://c.example'', title = ''C''\<rparr>"

definition first_output :: SearchOutput where
  "first_output = \<lparr>formattedOutput = ''found'', foundSources = [source_a, source_b, source_a]\<rparr>"

definition second_output :: SearchOutput where
  "second_output = \<lparr>formattedOutput = ''more found'', foundSources = [source_b, source_c]\<rparr>"

section \<open>MastraGraph (workflows/flow.ts)\<close>

text \<open>
  The state the graph threads through its nodes is a JavaScript object, a \<open>jsobject\<close>.
  A node function is called with the state and resolves to a result or rejects with an
  error. Since a node may update objects of the state in place, a resolved call gives
  the state as the node leaves it together with the result. The result is a \<open>Command\<close>
  (an object with a string \<open>goto\<close>), any other object (a partial state), or no
  object at all.
\<close>

datatype NodeResult =
    CommandResult Command
  | PartialState jsobject
  | NoObject

type_synonym NodeFunction = "jsobject \<Rightarrow> error + jsobject \<times> NodeResult"

record MastraGraph =
  nodes :: "string \<rightharpoonup> NodeFunction"
  entryPoint :: "string option"
  edges :: "string \<rightharpoonup> string list"
  conditionalEdges :: "string \<rightharpoonup> ((jsobject \<Rightarrow> Command \<Rightarrow> bool) \<times> string) list"

definition newMastraGraph :: MastraGraph where
  "newMastraGraph = \<lparr>nodes = Map.empty, entryPoint = None, edges = Map.empty,
      conditionalEdges = Map.empty\<rparr>"

definition addNode :: "string \<Rightarrow> NodeFunction \<Rightarrow> MastraGraph \<Rightarrow> MastraGraph" where
  "addNode node_name func g = g\<lparr>nodes := (nodes g)(node_name \<mapsto> func)\<rparr>"

definition setEntryPoint :: "string \<Rightarrow> MastraGraph \<Rightarrow> MastraGraph" where
  "setEntryPoint node_name g = g\<lparr>entryPoint := Some node_name\<rparr>"

definition addEdge :: "string \<Rightarrow> string \<Rightarrow> MastraGraph \<Rightarrow> MastraGraph" where
  "addEdge from to g =
     g\<lparr>edges := (edges g)(from \<mapsto> (case edges g from of None \<Rightarrow> [] | Some l \<Rightarrow> l) @ [to])\<rparr>"

definition addConditionalEdge ::
  "string \<Rightarrow> string \<Rightarrow> (jsobject \<Rightarrow> Command \<Rightarrow> bool) \<Rightarrow> MastraGraph \<Rightarrow> MastraGraph" where
  "addConditionalEdge from to condition g =
     g\<lparr>conditionalEdges := (conditionalEdges g)
          (from \<mapsto> (case conditionalEdges g from of None \<Rightarrow> [] | Some l \<Rightarrow> l)
                      @ [(condition, to)])\<rparr>"

text \<open>
  The spread \<^verbatim>\<open>{ ...currentState, ...update }\<close>: every property of the update
  replaces the state's property of that name, the other properties of the state stay.
\<close>

definition mergeState :: "jsobject \<Rightarrow> jsobject \<Rightarrow> jsobject" where
  "mergeState currentState upd = currentState ++ upd"

text \<open>The scan of the conditional edges of a node: the first whose condition holds.\<close>

fun firstConditional ::
  "((jsobject \<Rightarrow> Command \<Rightarrow> bool) \<times> string) list \<Rightarrow> jsobject \<Rightarrow> Command \<Rightarrow> string option" where
  "firstConditional [] currentState command = None"
| "firstConditional ((condition, to) # rest) currentState command =
     (if condition currentState command then Some to
      else firstConditional rest currentState command)"

text \<open>
  One turn of the \<^verbatim>\<open>while\<close> loop of \<open>run\<close>: the node is looked up and called, its
  result merged, and the next node resolved. The turn continues with a node and a state,
  returns the state, or throws.
\<close>

datatype Turn =
    Continue string jsobject
  | Return jsobject
  | Throw error

definition runTurn :: "MastraGraph \<Rightarrow> string \<Rightarrow> jsobject \<Rightarrow> Turn" where
  "runTurn g currentNodeName currentState =
     (case nodes g currentNodeName of
        None \<Rightarrow> Throw (NodeNotFound currentNodeName)
      | Some nodeFunc \<Rightarrow>
          (case nodeFunc currentState of
             Inl e \<Rightarrow> Throw e
           | Inr (stateAfterCall, NoObject) \<Rightarrow> Throw (InvalidResult currentNodeName)
           | Inr (stateAfterCall, CommandResult command) \<Rightarrow>
               (let merged = mergeState stateAfterCall (updateOf command) in
                case (case conditionalEdges g currentNodeName of
                        None \<Rightarrow> None
                      | Some conditionalLinks \<Rightarrow> firstConditional conditionalLinks merged command) of
                  Some to \<Rightarrow> Continue to merged
                | None \<Rightarrow>
                    if goto command = ''END'' then
                      (if currentNodeName = ''write-section''
                       then Continue ''gather-completed-sections'' merged
                       else Return merged)
                    else if goto command \<in> dom (nodes g) then Continue (goto command) merged
                    else Throw (NextNodeNotFound (goto command) currentNodeName))
           | Inr (stateAfterCall, PartialState partialState) \<Rightarrow>
               (let merged = mergeState stateAfterCall partialState in
                case edges g currentNodeName of
                  Some (to # others) \<Rightarrow> Continue to merged
                | _ \<Rightarrow>
                    if currentNodeName = ''compile-final-report''
                       \<and> ''final_report'' \<in> dom merged
                    then Return merged
                    else Throw (NoDirectEdge currentNodeName))))"

text \<open>
  \<^verbatim>\<open>let maxSteps = 20; while (maxSteps-- > 0) { ... }\<close>: the first argument of
  \<open>runLoop\<close> is the number of turns left. With none left the loop is over, and the code
  after it logs \<^verbatim>\<open>"Workflow exceeded maximum steps."\<close> and executes
  \<^verbatim>\<open>return currentState\<close>.
\<close>

definition maxSteps :: nat where
  "maxSteps = 20"

fun runLoop :: "MastraGraph \<Rightarrow> nat \<Rightarrow> string \<Rightarrow> jsobject \<Rightarrow> error + jsobject" where
  "runLoop g 0 currentNodeName currentState = Inr currentState"
| "runLoop g (Suc stepsLeft) currentNodeName currentState =
     (case runTurn g currentNodeName currentState of
        Continue next merged \<Rightarrow> runLoop g stepsLeft next merged
      | Return final \<Rightarrow> Inr final
      | Throw e \<Rightarrow> Inl e)"

text \<open>
  \<open>run\<close>. \<^verbatim>\<open>!this.entryPoint\<close> holds for \<^verbatim>\<open>null\<close> and for the empty string.
\<close>

definition run :: "MastraGraph \<Rightarrow> jsobject \<Rightarrow> error + jsobject" where
  "run g initialState =
     (case entryPoint g of
        None \<Rightarrow> Inl EntryPointNotSet
      | Some entry \<Rightarrow>
          if entry = [] then Inl EntryPointNotSet
          else runLoop g maxSteps entry initialState)"

text \<open>
  The state of the graph after a number of turns none of which returned or threw:
  the execution is still going on.
\<close>

fun stillRunning :: "MastraGraph \<Rightarrow> nat \<Rightarrow> string \<Rightarrow> jsobject \<Rightarrow> (string \<times> jsobject) option" where
  "stillRunning g 0 currentNodeName currentState = Some (currentNodeName, currentState)"
| "stillRunning g (Suc k) currentNodeName currentState =
     (case runTurn g currentNodeName currentState of
        Continue next merged \<Rightarrow> stillRunning g k next merged
      | _ \<Rightarrow> None)"

text \<open>
  A graph whose only node counts its calls in the state and has an edge to itself, and an
  initial state.
\<close>

definition counting_node :: NodeFunction where
  "counting_node currentState =
     Inr (currentState,
          PartialState [''visits'' \<mapsto>
             (case currentState ''visits'' of Some (JNum n) \<Rightarrow> JNum (n + 1) | _ \<Rightarrow> JNum 1)])"

definition cyclic_graph :: MastraGraph where
  "cyclic_graph =
     addEdge ''again'' ''again''
       (setEntryPoint ''again'' (addNode ''again'' counting_node newMastraGraph))"

definition initial_object :: jsobject where
  "initial_object = [''topic'' \<mapsto> JStr ''X'', ''sections'' \<mapsto> JSections [],
      ''completed_sections'' \<mapsto> JSections []]"

text \<open>
  A graph with a \<open>write-section\<close> node that answers with the command \<open>writeSection\<close>
  returns for a passing grade, wired as in flow.ts, and a state in which the introduction
  is already completed.
\<close>

definition passing_feedback :: Feedback where
  "passing_feedback = \<lparr>grade = Pass, follow_up_queries = []\<rparr>"

definition write_section_node :: NodeFunction where
  "write_section_node currentState =
     (case writeSection default_configuration (Inr ''draft'') (Inr passing_feedback)
             fresh_section_state of
        Inl e \<Rightarrow> Inl e
      | Inr (sectionState, command) \<Rightarrow> Inr (currentState, CommandResult command))"

definition section_graph :: MastraGraph where
  "section_graph =
     addConditionalEdge ''write-section'' ''gather-completed-sections''
         (\<lambda>state commandResult. goto commandResult = ''END'')
       (addConditionalEdge ''write-section'' ''search-web''
           (\<lambda>state commandResult. goto commandResult = ''search-web'')
         (setEntryPoint ''write-section''
           (addNode ''write-section'' write_section_node newMastraGraph)))"

definition object_with_intro_completed :: jsobject where
  "object_with_intro_completed = [''topic'' \<mapsto> JStr ''X'',
      ''sections'' \<mapsto> JSections [intro_section, body_section],
      ''completed_sections'' \<mapsto> JSections [intro_section\<lparr>content := Some (Text ''Hello'')\<rparr>]]"

section \<open>compileFinalReport (agents/graphAgent.ts)\<close>

text \<open>
  Strings are lists of bytes; text outside ASCII is held in UTF-8. \<open>newline\<close> is the
  character \<^verbatim>\<open>\n\<close>.
\<close>

definition newline :: char where
  "newline = CHR 0x0A"

text \<open>The decimal digits of a number, as a template literal renders an array index.\<close>

definition digit_char :: "nat \<Rightarrow> char" where
  "digit_char d = ''0123456789'' ! d"

fun decimal_digits :: "nat \<Rightarrow> string \<Rightarrow> string" where
  "decimal_digits n later =
     (if n < 10 then digit_char n # later
      else decimal_digits (n div 10) (digit_char (n mod 10) # later))"

declare decimal_digits.simps [simp del]

definition natToString :: "nat \<Rightarrow> string" where
  "natToString n = decimal_digits n []"

text \<open>
  The names of the properties that every plain object inherits from
  \<^verbatim>\<open>Object.prototype\<close>. The value of each is a function, except that of
  \<^verbatim>\<open>__proto__\<close>, which is the prototype object itself.
\<close>

definition inheritedNames :: "string list" where
  "inheritedNames =
     [''constructor'', ''__defineGetter__'', ''__defineSetter__'', ''hasOwnProperty'',
      ''__lookupGetter__'', ''__lookupSetter__'', ''isPrototypeOf'', ''propertyIsEnumerable'',
      ''toString'', ''valueOf'', ''__proto__'', ''toLocaleString'']"

text \<open>
  Whether a content is truthy, for a section of the given name: a non-empty string is, and
  so is the inherited value of a name that has one (a function or an object).
  \<^verbatim>\<open>undefined\<close> and the empty string are falsy; \<open>Inherited\<close> at a name that no object
  inherits is \<^verbatim>\<open>undefined\<close>.
\<close>

definition truthyContent :: "string \<Rightarrow> ContentValue option \<Rightarrow> bool" where
  "truthyContent holder v =
     (case v of
        None \<Rightarrow> False
      | Some (Text t) \<Rightarrow> t \<noteq> []
      | Some Inherited \<Rightarrow> holder \<in> set inheritedNames)"

text \<open>
  \<^verbatim>\<open>completed_sections.reduce((acc, section) => { acc[section.name] = section.content;
  return acc; }, {})\<close>: the own properties of the object \<open>acc\<close>, from section names to
  contents. The content of a later completed section replaces the content of an earlier
  one of the same name, also when the later content is \<^verbatim>\<open>undefined\<close>. The assignment
  to the name \<^verbatim>\<open>__proto__\<close> creates no property: it calls the setter of
  \<^verbatim>\<open>Object.prototype\<close>, which ignores a string and \<^verbatim>\<open>undefined\<close>, and which for the
  only object a content of that name can be, the prototype \<open>acc\<close> already has, changes
  nothing.
\<close>

definition completedContents :: "Section list \<Rightarrow> (string \<rightharpoonup> ContentValue option)" where
  "completedContents completed =
     foldl (\<lambda>acc sec. if name sec = ''__proto__'' then acc else acc(name sec \<mapsto> content sec))
       Map.empty completed"

text \<open>
  The property read \<^verbatim>\<open>completedSections[section.name]\<close>: the own property when there
  is one, otherwise the value inherited from \<^verbatim>\<open>Object.prototype\<close> when the name has
  one, otherwise \<^verbatim>\<open>undefined\<close>.
\<close>

definition propertyOf :: "(string \<rightharpoonup> ContentValue option) \<Rightarrow> string \<Rightarrow> ContentValue option" where
  "propertyOf obj n =
     (case obj n of
        Some v \<Rightarrow> v
      | None \<Rightarrow> if n \<in> set inheritedNames then Some Inherited else None)"

text \<open>
  \<^verbatim>\<open>completedSections[section.name] || section.content\<close>: the value read when it is
  truthy, the section's own content otherwise.
\<close>

definition mergedContent :: "(string \<rightharpoonup> ContentValue option) \<Rightarrow> Section \<Rightarrow> ContentValue option" where
  "mergedContent completedSections sec =
     (let v = propertyOf completedSections (name sec)
      in if truthyContent (name sec) v then v else content sec)"

text \<open>
  How \<^verbatim>\<open>Array.prototype.join\<close> and a template literal render a content:
  \<^verbatim>\<open>undefined\<close> as the empty string (in \<open>join\<close>), a string as itself, an inherited
  function as Node.js prints a built-in function, and the prototype object as
  \<^verbatim>\<open>[object Object]\<close>.
\<close>

definition inheritedText :: "string \<Rightarrow> string" where
  "inheritedText n =
     (if n = ''__proto__'' then ''[object Object]''
      else if n = ''constructor'' then ''function Object() { [native code] }''
      else if n \<in> set inheritedNames then ''function '' @ n @ ''() { [native code] }''
      else [])"

definition join_text :: "string \<Rightarrow> ContentValue option \<Rightarrow> string" where
  "join_text holder v =
     (case v of
        None \<Rightarrow> []
      | Some (Text t) \<Rightarrow> t
      | Some Inherited \<Rightarrow> inheritedText holder)"

fun join :: "string \<Rightarrow> string list \<Rightarrow> string" where
  "join separator [] = []"
| "join separator [x] = x"
| "join separator (x # y # rest) = x @ separator @ join separator (y # rest)"

text \<open>
  The two nested loops that collect the sources of all sections, skipping a URL already
  used. The inner loop is the loop of \<open>pushNewSources\<close>, here on \<open>allSources\<close> and
  \<open>usedUrls\<close>.
\<close>

fun collectSources ::
  "SourceReference list \<times> string set \<Rightarrow> Section list \<Rightarrow> SourceReference list \<times> string set" where
  "collectSources (allSources, usedUrls) [] = (allSources, usedUrls)"
| "collectSources (allSources, usedUrls) (sec # rest) =
     (case sources sec of
        None \<Rightarrow> collectSources (allSources, usedUrls) rest
      | Some l \<Rightarrow>
          if l \<noteq> [] then collectSources (pushNewSources (allSources, usedUrls) l) rest
          else collectSources (allSources, usedUrls) rest)"

text \<open>The heading \<^verbatim>\<open>"\n\n## ...\n\n"\<close> of the reference list; its four Japanese characters in UTF-8.\<close>

definition references_heading :: string where
  "references_heading =
     [newline, newline] @ ''## ''
     @ [CHR 0xE5, CHR 0x8F, CHR 0x82, CHR 0xE8, CHR 0x80, CHR 0x83,
        CHR 0xE6, CHR 0x96, CHR 0x87, CHR 0xE7, CHR 0x8C, CHR 0xAE]
     @ [newline, newline]"

text \<open>One line of the reference list: \<^verbatim>\<open>`${index + 1}. [${source.title}](${source.url})\n`\<close>.\<close>

definition referenceLine :: "nat \<Rightarrow> SourceReference \<Rightarrow> string" where
  "referenceLine index source =
     natToString (index + 1) @ ''. ['' @ title source @ '']('' @ url source @ '')'' @ [newline]"

text \<open>\<^verbatim>\<open>allSources.forEach((source, index) => { finalReport += ... })\<close>.\<close>

fun appendReferences :: "string \<Rightarrow> nat \<Rightarrow> SourceReference list \<Rightarrow> string" where
  "appendReferences finalReport index [] = finalReport"
| "appendReferences finalReport index (source # rest) =
     appendReferences (finalReport @ referenceLine index source) (Suc index) rest"

text \<open>
  \<open>compileFinalReport\<close>. The loop over \<open>sections\<close> assigns each section's \<open>content\<close> in
  place: the result is the state with the sections as the assignments leave them, and the
  \<open>final_report\<close> of the returned object.
\<close>

definition compileFinalReport :: "ReportState \<Rightarrow> ReportState \<times> string" where
  "compileFinalReport state =
     (let completedSections = completedContents (completed_sections state);
          secs = map (\<lambda>sec. sec\<lparr>content := mergedContent completedSections sec\<rparr>)
                   (sections state);
          allSections = join [newline, newline] (map (\<lambda>s. join_text (name s) (content s)) secs);
          allSources = fst (collectSources ([], {}) secs);
          finalReport =
            (if allSources \<noteq> []
             then appendReferences (allSections @ references_heading) 0 allSources
             else allSections)
      in (state\<lparr>sections := secs\<rparr>, finalReport))"


text \<open>A report to compile: three sections in plan order, completed in another order.\<close>

definition report_to_compile :: ReportState where
  "report_to_compile = \<lparr>topic = ''X'', report_sections_from_research = None,
      feedback_on_report_plan = Some [],
      sections =
        [intro_section\<lparr>sources := Some [source_b]\<rparr>,
         body_section\<lparr>content := Some (Text ''Old body''), sources := Some [source_a, source_b, source_a]\<rparr>,
         conclusion_section\<lparr>content := Some (Text ''Bye'')\<rparr>],
      completed_sections =
        [body_section\<lparr>content := Some (Text ''Body'')\<rparr>,
         intro_section\<lparr>content := Some (Text ''Hello'')\<rparr>],
      final_report = None\<rparr>"


text \<open>
  The reference numbers as the specification describes them: \<open>isDecimalOf n s\<close> holds when
  \<open>s\<close> is the decimal numeral of \<open>n\<close>, that is, a non-empty string of digits without a
  leading zero (the numeral \<open>0\<close> apart) whose value is \<open>n\<close>.
\<close>

definition digitValue :: "char \<Rightarrow> nat" where
  "digitValue c = of_char c - of_char (CHR ''0'')"

definition isDecimalOf :: "nat \<Rightarrow> string \<Rightarrow> bool" where
  "isDecimalOf n s \<longleftrightarrow>
     s \<noteq> [] \<and> set s \<subseteq> set ''0123456789'' \<and> (s = ''0'' \<or> hd s \<noteq> CHR ''0'')
     \<and> foldl (\<lambda>value c. 10 * value + digitValue c) 0 s = n"

text \<open>
  A report whose first section bears the name of an inherited property and has a text of
  its own, with no completed section.
\<close>

definition report_with_inherited_name :: ReportState where
  "report_with_inherited_name = \<lparr>topic = ''X'', report_sections_from_research = None,
      feedback_on_report_plan = Some [],
      sections =
        [\<lparr>name = ''constructor'', description = ''How it is built'', research = False,
          content = Some (Text ''Own text''), sources = None\<rparr>,
         conclusion_section\<lparr>content := Some (Text ''Bye'')\<rparr>],
      completed_sections = [],
      final_report = None\<rparr>"

section \<open>The report workflow (workflows/flow.ts, agents/graphAgent.ts)\<close>

subsection \<open>The remaining stages\<close>

text \<open>
  \<open>formatSections\<close> (tools/utils.ts): one block per section, numbered from one. The
  content is rendered when it is truthy, and the placeholder otherwise.
\<close>

definition formatSection :: "nat \<Rightarrow> Section \<Rightarrow> string" where
  "formatSection idx sec =
     [newline] @ replicate 60 (CHR ''='') @ [newline]
     @ ''Section '' @ natToString (idx + 1) @ '': '' @ name sec @ [newline]
     @ replicate 60 (CHR ''='') @ [newline]
     @ ''Description:'' @ [newline]
     @ description sec @ [newline]
     @ ''Requires Research:'' @ [newline]
     @ (if research sec then ''true'' else ''false'') @ [newline, newline]
     @ ''Content:'' @ [newline]
     @ (if truthyContent (name sec) (content sec) then join_text (name sec) (content sec)
        else ''[Not yet written]'')
     @ [newline, newline]"

definition formatSections :: "Section list \<Rightarrow> string" where
  "formatSections secs = concat (map (\<lambda>(idx, sec). formatSection idx sec) (enumerate 0 secs))"

text \<open>
  \<open>generateReportPlan\<close>. Its argument is the outcome of the planning: the configuration
  is loaded, the writer model produces queries, the search gateway is called, and the
  planner model produces the sections; any of these may reject. The function returns
  \<^verbatim>\<open>{ sections }\<close>.
\<close>

definition generateReportPlan :: "error + Section list \<Rightarrow> error + jsobject" where
  "generateReportPlan sectionsResult =
     (case sectionsResult of
        Inl e \<Rightarrow> Inl e
      | Inr planned \<Rightarrow> Inr [''sections'' \<mapsto> JSections planned])"

text \<open>
  \<open>humanFeedback\<close>. The plan is approved without a question (\<^verbatim>\<open>const approved = true\<close>),
  so the function always returns the command for \<open>route-tasks\<close>.
\<close>

definition humanFeedback :: "ReportState \<Rightarrow> Command" where
  "humanFeedback state =
     \<lparr>goto = ''route-tasks'',
      update = Some
        [''topic'' \<mapsto> JStr (topic state),
         ''sections'' \<mapsto> JSections (sections state),
         ''feedback_on_report_plan'' \<mapsto> JStrings [],
         ''completed_sections'' \<mapsto> JSections (completed_sections state),
         ''report_sections_from_research'' \<mapsto> js_opt_str (report_sections_from_research state)]\<rparr>"

text \<open>
  \<open>generateQueries\<close>. Its argument is the outcome of the call of the writer model. Both
  branches of the function (with and without a description of the section) return
  \<^verbatim>\<open>{ search_queries }\<close>.
\<close>

definition generateQueries :: "error + SearchQuery list \<Rightarrow> error + jsobject" where
  "generateQueries queriesResult =
     (case queriesResult of
        Inl e \<Rightarrow> Inl e
      | Inr queries \<Rightarrow> Inr [''search_queries'' \<mapsto> JQueries queries])"

text \<open>
  \<open>writeFinalSections\<close>. The first argument is the outcome of the call of the writer
  model; the section's \<open>content\<close> is assigned in place. The result is the section as the
  assignment leaves it and the partial state \<^verbatim>\<open>{ completed_sections: [section] }\<close>.
\<close>

definition writeFinalSections :: "error + string \<Rightarrow> Section \<Rightarrow> error + Section \<times> jsobject" where
  "writeFinalSections sectionContentResult sec =
     (case sectionContentResult of
        Inl e \<Rightarrow> Inl e
      | Inr text \<Rightarrow>
          (let sec' = sec\<lparr>content := Some (Text text)\<rparr>
           in Inr (sec', [''completed_sections'' \<mapsto> JSections [sec']])))"

definition gatherCompletedSections :: "Section list \<Rightarrow> jsobject" where
  "gatherCompletedSections completedSections =
     [''report_sections_from_research'' \<mapsto> JStr (formatSections completedSections)]"

subsection \<open>The stages as nodes of the graph\<close>

text \<open>
  The graph calls every stage with its state object. A stage reads that object through
  the type it declares for its parameter, \<open>ReportState\<close> or \<open>SectionState\<close>. The views
  below give the state read through these types; they are \<open>None\<close> when a required
  property is missing or holds a value of another type. Then the node below rejects with
  a type error. (No state of a run started by \<open>generateReport\<close> is of that kind, see
  \<open>workflow_states_typed\<close>.) \<open>source_str\<close> is not yet set when \<open>search-web\<close> runs first,
  and \<open>searchWeb\<close> does not read it.
\<close>

definition asReportState :: "jsobject \<Rightarrow> ReportState option" where
  "asReportState obj =
     (case obj ''topic'' of
        Some (JStr t) \<Rightarrow>
          (case obj ''sections'' of
             Some (JSections secs) \<Rightarrow>
               (case obj ''completed_sections'' of
                  Some (JSections completed) \<Rightarrow>
                    Some \<lparr>topic = t,
                          report_sections_from_research =
                            (case obj ''report_sections_from_research'' of
                               Some (JStr r) \<Rightarrow> Some r | _ \<Rightarrow> None),
                          feedback_on_report_plan =
                            (case obj ''feedback_on_report_plan'' of
                               Some (JStrings l) \<Rightarrow> Some l | _ \<Rightarrow> None),
                          sections = secs,
                          completed_sections = completed,
                          final_report =
                            (case obj ''final_report'' of
                               Some (JStr r) \<Rightarrow> Some r | _ \<Rightarrow> None)\<rparr>
                | _ \<Rightarrow> None)
           | _ \<Rightarrow> None)
      | _ \<Rightarrow> None)"

definition asSectionState :: "jsobject \<Rightarrow> SectionState option" where
  "asSectionState obj =
     (case obj ''topic'' of
        Some (JStr t) \<Rightarrow>
          (case obj ''section'' of
             Some (JSection sec) \<Rightarrow>
               (case obj ''search_iterations'' of
                  Some (JNum n) \<Rightarrow>
                    (case obj ''search_queries'' of
                       Some (JQueries queries) \<Rightarrow>
                         Some \<lparr>topic = t,
                               report_sections_from_research =
                                 (case obj ''report_sections_from_research'' of
                                    Some (JStr r) \<Rightarrow> Some r | _ \<Rightarrow> None),
                               section = sec,
                               search_iterations = n,
                               search_queries = queries,
                               source_str =
                                 (case obj ''source_str'' of Some (JStr r) \<Rightarrow> r | _ \<Rightarrow> [])\<rparr>
                     | _ \<Rightarrow> None)
                | _ \<Rightarrow> None)
           | _ \<Rightarrow> None)
      | _ \<Rightarrow> None)"

definition typeError :: error where
  "typeError = Thrown ''TypeError''"

text \<open>
  The section a stage works on is the object \<open>routeTasks\<close> took from \<open>sections\<close>: the
  first section not completed by name. An assignment to the section in place is therefore
  seen in \<open>sections\<close> as well. \<open>storeSection\<close> gives the state after such an assignment:
  the property \<open>section\<close> and that entry of \<open>sections\<close> hold the section as assigned.
  (\<open>completed_sections\<close> does not change while a section is worked on.)
\<close>

fun assignSelected :: "Section list \<Rightarrow> Section \<Rightarrow> Section list \<Rightarrow> Section list" where
  "assignSelected completed assigned [] = []"
| "assignSelected completed assigned (s # rest) =
     (if \<not> isCompleted completed s then assigned # rest
      else s # assignSelected completed assigned rest)"

definition storeSection :: "jsobject \<Rightarrow> Section \<Rightarrow> jsobject" where
  "storeSection currentState assigned =
     (case asReportState currentState of
        None \<Rightarrow> currentState(''section'' \<mapsto> JSection assigned)
      | Some state \<Rightarrow>
          currentState
            (''section'' \<mapsto> JSection assigned,
             ''sections'' \<mapsto>
                JSections (assignSelected (completed_sections state) assigned (sections state))))"

text \<open>
  What the external capabilities answer when a stage calls them. The answer may depend
  on the state the stage is called with, and each call may reject.
\<close>

record Capabilities =
  planned :: "jsobject \<Rightarrow> error + Section list"
  queried :: "jsobject \<Rightarrow> error + SearchQuery list"
  searched :: "jsobject \<Rightarrow> error + SearchOutput"
  written :: "jsobject \<Rightarrow> error + string"
  graded :: "jsobject \<Rightarrow> error + Feedback"
  finalWritten :: "jsobject \<Rightarrow> error + string"

definition generateReportPlanNode :: "Capabilities \<Rightarrow> NodeFunction" where
  "generateReportPlanNode capabilities currentState =
     (case generateReportPlan (planned capabilities currentState) of
        Inl e \<Rightarrow> Inl e
      | Inr partialState \<Rightarrow> Inr (currentState, PartialState partialState))"

definition humanFeedbackNode :: NodeFunction where
  "humanFeedbackNode currentState =
     (case asReportState currentState of
        None \<Rightarrow> Inl typeError
      | Some state \<Rightarrow> Inr (currentState, CommandResult (humanFeedback state)))"

definition routeTasksNode :: NodeFunction where
  "routeTasksNode currentState =
     (case asReportState currentState of
        None \<Rightarrow> Inl typeError
      | Some state \<Rightarrow> Inr (currentState, CommandResult (routeTasks state)))"

definition generateQueriesNode :: "Capabilities \<Rightarrow> NodeFunction" where
  "generateQueriesNode capabilities currentState =
     (case generateQueries (queried capabilities currentState) of
        Inl e \<Rightarrow> Inl e
      | Inr partialState \<Rightarrow> Inr (currentState, PartialState partialState))"

definition searchWebNode :: "Capabilities \<Rightarrow> NodeFunction" where
  "searchWebNode capabilities currentState =
     (case asSectionState currentState of
        None \<Rightarrow> Inl typeError
      | Some state \<Rightarrow>
          (case searchWeb (searched capabilities currentState) state of
             Inl e \<Rightarrow> Inl e
           | Inr (state1, partialState) \<Rightarrow>
               Inr (storeSection currentState (section state1), PartialState partialState)))"

definition writeSectionNode :: "Configuration \<Rightarrow> Capabilities \<Rightarrow> NodeFunction" where
  "writeSectionNode configuration capabilities currentState =
     (case asSectionState currentState of
        None \<Rightarrow> Inl typeError
      | Some state \<Rightarrow>
          (case writeSection configuration (written capabilities currentState)
                  (graded capabilities currentState) state of
             Inl e \<Rightarrow> Inl e
           | Inr (state1, command) \<Rightarrow>
               Inr (storeSection currentState (section state1), CommandResult command)))"

definition writeFinalSectionsNode :: "Capabilities \<Rightarrow> NodeFunction" where
  "writeFinalSectionsNode capabilities currentState =
     (case currentState ''section'' of
        Some (JSection sec) \<Rightarrow>
          (case writeFinalSections (finalWritten capabilities currentState) sec of
             Inl e \<Rightarrow> Inl e
           | Inr (assigned, partialState) \<Rightarrow>
               Inr (storeSection currentState assigned, PartialState partialState))
      | _ \<Rightarrow> Inl typeError)"

definition gatherCompletedSectionsNode :: NodeFunction where
  "gatherCompletedSectionsNode currentState =
     (case asReportState currentState of
        None \<Rightarrow> Inl typeError
      | Some state \<Rightarrow>
          Inr (currentState, PartialState (gatherCompletedSections (completed_sections state))))"

text \<open>
  \<open>compileFinalReport\<close> assigns the content of every section of \<open>sections\<close> in place. The
  completed sections of a run and the section of the state are objects of \<open>sections\<close>,
  so they show the assigned content too.
\<close>

definition compileFinalReportNode :: NodeFunction where
  "compileFinalReportNode currentState =
     (case asReportState currentState of
        None \<Rightarrow> Inl typeError
      | Some state \<Rightarrow>
          (let (state1, finalReport) = compileFinalReport state;
               completedSections = completedContents (completed_sections state);
               assigned = (\<lambda>sec. sec\<lparr>content := mergedContent completedSections sec\<rparr>);
               stateAfterCall =
                 currentState
                   (''sections'' \<mapsto> JSections (sections state1),
                    ''completed_sections'' \<mapsto> JSections (map assigned (completed_sections state)));
               stateAfterCall' =
                 (case currentState ''section'' of
                    Some (JSection sec) \<Rightarrow> stateAfterCall(''section'' \<mapsto> JSection (assigned sec))
                  | _ \<Rightarrow> stateAfterCall)
           in Inr (stateAfterCall', PartialState [''final_report'' \<mapsto> JStr finalReport])))"

subsection \<open>The graph\<close>

text \<open>
  The graph as flow.ts builds it: the nine nodes, the entry point, and the edges, each
  added in the order of the source (the innermost call below is the first of the source).
\<close>

definition reportGenerationWorkflow :: "Configuration \<Rightarrow> Capabilities \<Rightarrow> MastraGraph" where
  "reportGenerationWorkflow configuration capabilities =
     addEdge ''gather-completed-sections'' ''route-tasks''
    (addEdge ''write-final-sections'' ''gather-completed-sections''
    (addConditionalEdge ''write-section'' ''gather-completed-sections''
       (\<lambda>state commandResult. goto commandResult = ''END'')
    (addConditionalEdge ''write-section'' ''search-web''
       (\<lambda>state commandResult. goto commandResult = ''search-web'')
    (addEdge ''search-web'' ''write-section''
    (addEdge ''generate-queries'' ''search-web''
    (addConditionalEdge ''route-tasks'' ''compile-final-report''
       (\<lambda>state commandResult. goto commandResult = ''compile-final-report'')
    (addConditionalEdge ''route-tasks'' ''write-final-sections''
       (\<lambda>state commandResult. goto commandResult = ''write-final-sections'')
    (addConditionalEdge ''route-tasks'' ''generate-queries''
       (\<lambda>state commandResult. goto commandResult = ''generate-queries'')
    (addConditionalEdge ''human-feedback'' ''route-tasks''
       (\<lambda>state commandResult. goto commandResult = ''route-tasks'')
    (addConditionalEdge ''human-feedback'' ''generate-report-plan''
       (\<lambda>state commandResult. goto commandResult = ''generate-report-plan'')
    (addEdge ''generate-report-plan'' ''human-feedback''
    (setEntryPoint ''generate-report-plan''
    (addNode ''compile-final-report'' compileFinalReportNode
    (addNode ''gather-completed-sections'' gatherCompletedSectionsNode
    (addNode ''write-final-sections'' (writeFinalSectionsNode capabilities)
    (addNode ''write-section'' (writeSectionNode configuration capabilities)
    (addNode ''search-web'' (searchWebNode capabilities)
    (addNode ''generate-queries'' (generateQueriesNode capabilities)
    (addNode ''route-tasks'' routeTasksNode
    (addNode ''human-feedback'' humanFeedbackNode
    (addNode ''generate-report-plan'' (generateReportPlanNode capabilities)
       newMastraGraph)))))))))))))))))))))"

text \<open>The initial state \<open>generateReport\<close> passes to \<open>run\<close>.\<close>

definition generateReport_initialState :: "string \<Rightarrow> jsobject" where
  "generateReport_initialState reportTopic =
     [''topic'' \<mapsto> JStr reportTopic,
      ''sections'' \<mapsto> JSections [],
      ''completed_sections'' \<mapsto> JSections [],
      ''feedback_on_report_plan'' \<mapsto> JStrings []]"

text \<open>
  The node calls of a run, in order: the name of each node the loop of \<open>run\<close> calls and
  the state it is called with, for a loop of at most the given number of turns. The
  recursion is that of \<open>runLoop\<close>.
\<close>

fun nodeCalls :: "MastraGraph \<Rightarrow> nat \<Rightarrow> string \<Rightarrow> jsobject \<Rightarrow> (string \<times> jsobject) list" where
  "nodeCalls g 0 currentNodeName currentState = []"
| "nodeCalls g (Suc stepsLeft) currentNodeName currentState =
     (currentNodeName, currentState)
     # (case runTurn g currentNodeName currentState of
          Continue next merged \<Rightarrow> nodeCalls g stepsLeft next merged
        | _ \<Rightarrow> [])"

text \<open>The names of the sections searched, one for each call of \<open>search-web\<close>.\<close>

definition searchedSections :: "(string \<times> jsobject) list \<Rightarrow> string list" where
  "searchedSections made =
     List.map_filter
       (\<lambda>(node, st). if node = ''search-web''
                      then (case st ''section'' of Some (JSection sec) \<Rightarrow> Some (name sec)
                            | _ \<Rightarrow> None)
                      else None)
       made"

text \<open>
  \<open>passesWithin limit count nodes\<close>: along the node names \<open>nodes\<close>, no more than \<open>limit\<close>
  calls of \<open>search-web\<close> lie between two calls of \<open>route-tasks\<close>, where \<open>count\<close> calls of
  \<open>search-web\<close> have been made since the last \<open>route-tasks\<close> before \<open>nodes\<close>.
\<close>

fun passesWithin :: "nat \<Rightarrow> nat \<Rightarrow> string list \<Rightarrow> bool" where
  "passesWithin limit count [] = True"
| "passesWithin limit count (node # rest) =
     (if node = ''route-tasks'' then passesWithin limit 0 rest
      else if node = ''search-web''
        then Suc count \<le> limit \<and> passesWithin limit (Suc count) rest
      else passesWithin limit count rest)"

text \<open>
  What a state must hold when a node is called with it, for the node to read what its
  type declares: every node a report state, the two stages of the refinement cycle a
  section state, and \<open>write-final-sections\<close> a section.
\<close>

definition typedFor :: "string \<Rightarrow> jsobject \<Rightarrow> bool" where
  "typedFor node st \<longleftrightarrow>
     asReportState st \<noteq> None
     \<and> (node = ''search-web'' \<or> node = ''write-section'' \<longrightarrow> asSectionState st \<noteq> None)
     \<and> (node = ''write-final-sections'' \<longrightarrow>
          (case st ''section'' of Some (JSection sec) \<Rightarrow> True | _ \<Rightarrow> False))"

text \<open>
  Capabilities that always answer, with a grader that fails every section; the plan is
  given. Two planned sections that need research.
\<close>

definition failing_feedback :: Feedback where
  "failing_feedback = \<lparr>grade = Fail, follow_up_queries = [SearchQuery ''more'']\<rparr>"

definition failing_capabilities :: "Section list \<Rightarrow> Capabilities" where
  "failing_capabilities plan =
     \<lparr>planned = (\<lambda>st. Inr plan),
      queried = (\<lambda>st. Inr [SearchQuery ''first query'']),
      searched = (\<lambda>st. Inr first_output),
      written = (\<lambda>st. Inr ''draft''),
      graded = (\<lambda>st. Inr failing_feedback),
      finalWritten = (\<lambda>st. Inr ''closing'')\<rparr>"

definition section_a :: Section where
  "section_a = \<lparr>name = ''A'', description = ''First part'', research = True,
      content = None, sources = None\<rparr>"

definition section_b :: Section where
  "section_b = \<lparr>name = ''B'', description = ''Second part'', research = True,
      content = None, sources = None\<rparr>"

text \<open>A state in which the section \<open>A\<close> is worked on and has been searched twice.\<close>

definition section_object :: jsobject where
  "section_object =
     [''topic'' \<mapsto> JStr ''X'',
      ''sections'' \<mapsto> JSections [section_a, section_b],
      ''completed_sections'' \<mapsto> JSections [],
      ''section'' \<mapsto> JSection section_a,
      ''search_iterations'' \<mapsto> JNum 2,
      ''search_queries'' \<mapsto> JQueries [SearchQuery ''more'']]"

definition section_object_state :: SectionState where
  "section_object_state = \<lparr>topic = ''X'', report_sections_from_research = None,
      section = section_a, search_iterations = 2,
      search_queries = [SearchQuery ''more''], source_str = []\<rparr>"

section \<open>tavilySearchAsync (tools/utils.ts)\<close>

text \<open>
  The response of the search provider. The items of \<open>results\<close> are the provider's
  \<open>SearchResult\<close> objects; their properties \<^verbatim>\<open>title\<close>, \<^verbatim>\<open>url\<close>, \<^verbatim>\<open>content\<close> carry the
  prefix \<open>result_\<close> here, and the floating-point \<^verbatim>\<open>score\<close>, which no function reads, is
  left out. \<^verbatim>\<open>null\<close> and a missing property are \<open>None\<close>.
\<close>

record SearchResult =
  result_title :: string
  result_url :: string
  result_content :: string
  raw_content :: "string option"

record SearchResponse =
  query :: string
  follow_up_questions :: "string list option"
  answer :: "string option"
  images :: "string list"
  results :: "SearchResult list"
  error :: "string option"

text \<open>
  \<^verbatim>\<open>tavilyClient.search(query, { search_depth: "advanced", max_results, include_raw_content,
  topic })\<close>: the call resolves to a response or rejects with an error, of which the
  message is kept. The arguments are the query, \<open>max_results\<close>, \<open>topic\<close> and
  \<open>include_raw_content\<close>.
\<close>

type_synonym TavilyClient = "string \<Rightarrow> int \<Rightarrow> string \<Rightarrow> bool \<Rightarrow> string + SearchResponse"

text \<open>
  \<^verbatim>\<open>const searchCache: Record<string, SearchResponse> = {}\<close>: an object of the module,
  empty when the process starts and written nowhere but in \<open>tavilySearchAsync\<close>. The
  functions below take the cache and return it as they leave it.
\<close>

type_synonym SearchCache = "string \<rightharpoonup> SearchResponse"

definition searchCache_initial :: SearchCache where
  "searchCache_initial = Map.empty"

text \<open>A whole number as a template literal renders it.\<close>

definition numberToString :: "int \<Rightarrow> string" where
  "numberToString i = (if 0 \<le> i then natToString (nat i) else CHR ''-'' # natToString (nat (- i)))"

text \<open>\<^verbatim>\<open>`${query}:${maxResults}:${topic}:${includeRawContent}`\<close>\<close>

definition cacheKey :: "string \<Rightarrow> int \<Rightarrow> string \<Rightarrow> bool \<Rightarrow> string" where
  "cacheKey q maxResults topic_name includeRawContent =
     q @ '':'' @ numberToString maxResults @ '':'' @ topic_name @ '':''
       @ (if includeRawContent then ''true'' else ''false'')"

definition batchSize :: nat where
  "batchSize = 2"

text \<open>The response the \<^verbatim>\<open>catch\<close> block builds for a query of a failed batch.\<close>

definition errorResponse :: "string \<Rightarrow> string \<Rightarrow> SearchResponse" where
  "errorResponse q message =
     \<lparr>query = q, follow_up_questions = None, answer = None, images = [], results = [],
      error = Some message\<rparr>"

text \<open>
  \<^verbatim>\<open>.then(result => { searchCache[cacheKey] = result; return result; })\<close>, for each call
  of a batch that resolved.
\<close>

fun storeResolved ::
  "(string \<Rightarrow> string) \<Rightarrow> SearchCache \<Rightarrow> (string \<times> (string + SearchResponse)) list \<Rightarrow> SearchCache" where
  "storeResolved key cache [] = cache"
| "storeResolved key cache ((q, Inr result) # rest) = storeResolved key (cache(key q \<mapsto> result)) rest"
| "storeResolved key cache ((q, Inl message) # rest) = storeResolved key cache rest"

text \<open>
  \<^verbatim>\<open>await Promise.all(searchPromises)\<close>: the responses in the order of the batch when
  every call resolved, and otherwise the rejection of a call that rejected (of the first
  one in the order of the batch).
\<close>

fun promiseAll :: "(string + SearchResponse) list \<Rightarrow> string + SearchResponse list" where
  "promiseAll [] = Inr []"
| "promiseAll (Inl message # rest) = Inl message"
| "promiseAll (Inr result # rest) =
     (case promiseAll rest of Inl message \<Rightarrow> Inl message | Inr others \<Rightarrow> Inr (result # others))"

text \<open>
  The loop \<^verbatim>\<open>for (let i = 0; i < uncachedQueries.length; i += batchSize)\<close>. Its state
  is \<open>results\<close>, the cache, and the list of the provider calls made, each with its four
  arguments. Every query of the batch is sent to the provider before the batch is awaited.
  If the batch fails, the \<^verbatim>\<open>catch\<close> block pushes an error response for every query
  of the batch.
\<close>

type_synonym ProviderCall = "string \<times> int \<times> string \<times> bool"

function processBatches ::
  "TavilyClient \<Rightarrow> int \<Rightarrow> string \<Rightarrow> bool
     \<Rightarrow> SearchResponse list \<times> SearchCache \<times> ProviderCall list
     \<Rightarrow> string list
     \<Rightarrow> SearchResponse list \<times> SearchCache \<times> ProviderCall list" where
  "processBatches client maxResults topic_name includeRawContent (found, cache, calls) uncachedQueries =
     (if uncachedQueries = [] then (found, cache, calls)
      else
        (let batch = take batchSize uncachedQueries;
             settled = map (\<lambda>q. (q, client q maxResults topic_name includeRawContent)) batch;
             cache' = storeResolved (\<lambda>q. cacheKey q maxResults topic_name includeRawContent)
                        cache settled;
             calls' = calls @ map (\<lambda>q. (q, maxResults, topic_name, includeRawContent)) batch;
             found' =
               (case promiseAll (map snd settled) of
                  Inr batchResults \<Rightarrow> found @ batchResults
                | Inl message \<Rightarrow> found @ map (\<lambda>q. errorResponse q message) batch)
         in processBatches client maxResults topic_name includeRawContent
              (found', cache', calls') (drop batchSize uncachedQueries)))"
  by pat_completeness auto
termination
  by (relation "measure (\<lambda>(client, maxResults, topic_name, includeRawContent, state, uncachedQueries).
        length uncachedQueries)")
     (auto simp: batchSize_def)

declare processBatches.simps [simp del]

text \<open>
  \<open>tavilySearchAsync\<close>: the cached responses first, then the batches of the queries not
  in the cache, then the responses put in the order of the queries
  (\<^verbatim>\<open>results.find(r => r.query === query)\<close>, a query without a response is skipped).
  The result is the ordered responses, the cache, and the provider calls made.
\<close>

definition tavilySearchAsync ::
  "TavilyClient \<Rightarrow> SearchCache \<Rightarrow> string list \<Rightarrow> int \<Rightarrow> string \<Rightarrow> bool
     \<Rightarrow> SearchResponse list \<times> SearchCache \<times> ProviderCall list" where
  "tavilySearchAsync client cache searchQueries maxResults topic_name includeRawContent =
     (let key = (\<lambda>q. cacheKey q maxResults topic_name includeRawContent);
          cachedResults = List.map_filter (\<lambda>q. cache (key q)) searchQueries;
          uncachedQueries = filter (\<lambda>q. cache (key q) = None) searchQueries;
          (found, cache', calls) =
             processBatches client maxResults topic_name includeRawContent
               (cachedResults, cache, []) uncachedQueries;
          orderedResults =
             List.map_filter (\<lambda>q. find (\<lambda>r. query r = q) found) searchQueries
      in (orderedResults, cache', calls))"

text \<open>
  A provider that answers the query \<open>a\<close> and fails on every other query with an error
  that is not a rate limit.
\<close>

definition answer_a :: SearchResponse where
  "answer_a = \<lparr>query = ''a'', follow_up_questions = None, answer = None, images = [],
      results = [\<lparr>result_title = ''A'', result_url = ''https://a.example'',
                  result_content = ''about a'', raw_content = None\<rparr>],
      error = None\<rparr>"

definition client_a_only :: TavilyClient where
  "client_a_only q maxResults topic_name includeRawContent =
     (if q = ''a'' then Inr answer_a else Inl ''Request failed with status code 500'')"





section \<open>Properties of routeTasks\<close>

lemma isCompleted_iff: "isCompleted completed s \<longleftrightarrow> name s \<in> name ` set completed"
  unfolding isCompleted_def list_ex_iff image_iff by (auto intro: sym)

lemma firstUncompleted_None_iff:
  "firstUncompletedSection completed secs = None \<longleftrightarrow>
     (\<forall>s \<in> set secs. name s \<in> name ` set completed)"
  by (induction secs) (simp_all add: isCompleted_iff)

lemma firstUncompleted_Some_split:
  "firstUncompletedSection completed secs = Some s \<Longrightarrow>
     \<exists>pre post. secs = pre @ s # post
        \<and> (\<forall>p \<in> set pre. name p \<in> name ` set completed)
        \<and> name s \<notin> name ` set completed"
proof (induction secs)
  case Nil
  then show ?case by simp
next
  case (Cons a secs)
  show ?case
  proof (cases "isCompleted completed a")
    case True
    with Cons.prems have "firstUncompletedSection completed secs = Some s" by simp
    from Cons.IH [OF this] obtain pre post where
      "secs = pre @ s # post" "\<forall>p \<in> set pre. name p \<in> name ` set completed"
      "name s \<notin> name ` set completed" by blast
    with True have "a # secs = (a # pre) @ s # post \<and>
        (\<forall>p \<in> set (a # pre). name p \<in> name ` set completed) \<and>
        name s \<notin> name ` set completed"
      by (simp add: isCompleted_iff)
    then show ?thesis by blast
  next
    case False
    with Cons.prems have "a = s" by simp
    with False have "a # secs = [] @ s # secs \<and>
        (\<forall>p \<in> set []. name p \<in> name ` set completed) \<and>
        name s \<notin> name ` set completed"
      by (simp add: isCompleted_iff)
    then show ?thesis by blast
  qed
qed

text \<open>
  With pairwise distinct section names, fewer completed sections than sections leave a
  section whose name is not completed: the names of the sections are as many as the
  sections, and the completed names are at most as many as the completed sections.
\<close>

lemma distinct_names_pigeonhole:
  assumes "distinct (map name secs)" and "length completed < length secs"
  shows "\<exists>s \<in> set secs. name s \<notin> name ` set completed"
proof (rule ccontr)
  assume "\<not> ?thesis"
  then have "set (map name secs) \<subseteq> set (map name completed)" by auto
  then have "card (set (map name secs)) \<le> card (set (map name completed))"
    by (intro card_mono) simp_all
  moreover have "card (set (map name secs)) = length secs"
    using assms(1) by (metis distinct_card length_map)
  moreover have "card (set (map name completed)) \<le> length completed"
    by (metis card_length length_map)
  ultimately show False using assms(2) by simp
qed

text \<open>
  C1, as the code has it. When \<open>sections\<close> is not empty, its length differs from the
  length of \<open>completed_sections\<close>, and some section's name is not the name of a completed
  section, \<open>routeTasks\<close> selects the first such section in the order of \<open>sections\<close>: every
  section before it is completed by name. A selected section with \<open>research\<close> set is sent
  to \<open>generate-queries\<close> with \<open>search_iterations = 0\<close> in the update, any other selected
  section to \<open>write-final-sections\<close>; both updates carry the selected section. Such a
  section exists whenever the section names are pairwise distinct and fewer sections are
  completed than planned. When \<open>sections\<close> is empty or has as many entries as
  \<open>completed_sections\<close>, and also when every section's name is among the completed names
  (the fallback after the scan), the directive is \<open>compile-final-report\<close> without an
  update.
\<close>

theorem routeTasks_first_uncompleted:
  "(sections st \<noteq> [] \<and> length (completed_sections st) \<noteq> length (sections st)
      \<and> \<not> name ` set (sections st) \<subseteq> name ` set (completed_sections st) \<longrightarrow>
      (\<exists>pre s post. sections st = pre @ s # post
         \<and> name ` set pre \<subseteq> name ` set (completed_sections st)
         \<and> name s \<notin> name ` set (completed_sections st)
         \<and> (research s \<longrightarrow>
               goto (routeTasks st) = ''generate-queries''
             \<and> (\<exists>u. update (routeTasks st) = Some u
                  \<and> u ''section'' = Some (JSection s)
                  \<and> u ''search_iterations'' = Some (JNum 0)))
         \<and> (\<not> research s \<longrightarrow>
               goto (routeTasks st) = ''write-final-sections''
             \<and> (\<exists>u. update (routeTasks st) = Some u
                  \<and> u ''section'' = Some (JSection s)))))
   \<and> (distinct (map name (sections st))
        \<and> length (completed_sections st) < length (sections st) \<longrightarrow>
        sections st \<noteq> [] \<and> length (completed_sections st) \<noteq> length (sections st)
        \<and> \<not> name ` set (sections st) \<subseteq> name ` set (completed_sections st))
   \<and> (sections st = [] \<or> length (completed_sections st) = length (sections st) \<longrightarrow>
        routeTasks st = \<lparr>goto = ''compile-final-report'', update = None\<rparr>)
   \<and> (name ` set (sections st) \<subseteq> name ` set (completed_sections st) \<longrightarrow>
        routeTasks st = \<lparr>goto = ''compile-final-report'', update = None\<rparr>)"
proof -
  have selected: "\<exists>pre s post. sections st = pre @ s # post
         \<and> name ` set pre \<subseteq> name ` set (completed_sections st)
         \<and> name s \<notin> name ` set (completed_sections st)
         \<and> (research s \<longrightarrow>
               goto (routeTasks st) = ''generate-queries''
             \<and> (\<exists>u. update (routeTasks st) = Some u
                  \<and> u ''section'' = Some (JSection s)
                  \<and> u ''search_iterations'' = Some (JNum 0)))
         \<and> (\<not> research s \<longrightarrow>
               goto (routeTasks st) = ''write-final-sections''
             \<and> (\<exists>u. update (routeTasks st) = Some u
                  \<and> u ''section'' = Some (JSection s)))"
    if h: "sections st \<noteq> [] \<and> length (completed_sections st) \<noteq> length (sections st)
      \<and> \<not> name ` set (sections st) \<subseteq> name ` set (completed_sections st)"
  proof -
    from h have ne: "sections st \<noteq> []"
      and neq: "length (completed_sections st) \<noteq> length (sections st)"
      by auto
    from h have "\<exists>s \<in> set (sections st). name s \<notin> name ` set (completed_sections st)"
      by blast
    then have "firstUncompletedSection (completed_sections st) (sections st) \<noteq> None"
      by (simp add: firstUncompleted_None_iff)
    then obtain s where
      s: "firstUncompletedSection (completed_sections st) (sections st) = Some s"
      by blast
    from firstUncompleted_Some_split [OF s] obtain pre post where
      sp0: "sections st = pre @ s # post"
          "\<forall>p \<in> set pre. name p \<in> name ` set (completed_sections st)"
          "name s \<notin> name ` set (completed_sections st)" by blast
    then have
      sp: "sections st = pre @ s # post"
          "name ` set pre \<subseteq> name ` set (completed_sections st)"
          "name s \<notin> name ` set (completed_sections st)" by blast+
    have r: "routeTasks st =
        (if research s
         then \<lparr>goto = ''generate-queries'', update = Some (research_update st s)\<rparr>
         else \<lparr>goto = ''write-final-sections'', update = Some (final_update st s)\<rparr>)"
      using ne neq s by (simp add: routeTasks_def)
    have u1: "research_update st s ''section'' = Some (JSection s)"
             "research_update st s ''search_iterations'' = Some (JNum 0)"
      by (simp_all add: research_update_def)
    have u2: "final_update st s ''section'' = Some (JSection s)"
      by (simp add: final_update_def)
    show ?thesis
      using sp r u1 u2 by (intro exI [of _ pre] exI [of _ s] exI [of _ post]) simp
  qed
  have some_left: "sections st \<noteq> [] \<and> length (completed_sections st) \<noteq> length (sections st)
        \<and> \<not> name ` set (sections st) \<subseteq> name ` set (completed_sections st)"
    if h: "distinct (map name (sections st))
      \<and> length (completed_sections st) < length (sections st)"
  proof -
    from h have "\<exists>s \<in> set (sections st). name s \<notin> name ` set (completed_sections st)"
      by (intro distinct_names_pigeonhole) simp_all
    with h show ?thesis by auto
  qed
  have all_done: "routeTasks st = \<lparr>goto = ''compile-final-report'', update = None\<rparr>"
    if "sections st = [] \<or> length (completed_sections st) = length (sections st)"
    using that by (auto simp: routeTasks_def compile_directive_def)
  have fallback: "routeTasks st = \<lparr>goto = ''compile-final-report'', update = None\<rparr>"
    if "name ` set (sections st) \<subseteq> name ` set (completed_sections st)"
  proof -
    from that have "\<forall>s \<in> set (sections st). name s \<in> name ` set (completed_sections st)"
      by blast
    then have "firstUncompletedSection (completed_sections st) (sections st) = None"
      by (simp add: firstUncompleted_None_iff)
    then show ?thesis by (simp add: routeTasks_def compile_directive_def)
  qed
  from selected some_left all_done fallback show ?thesis by blast
qed

text \<open>
  The theorem at two report states. In the first, of three sections with distinct names
  only the introduction is completed, and the body, which needs research, is selected. In
  the second, the only section is completed.
\<close>

theorem routeTasks_first_uncompleted_witness:
  "(distinct (map name (sections report_in_progress))
      \<and> length (completed_sections report_in_progress) < length (sections report_in_progress))
   \<and> sections report_in_progress \<noteq> []
   \<and> \<not> name ` set (sections report_in_progress)
          \<subseteq> name ` set (completed_sections report_in_progress)
   \<and> goto (routeTasks report_in_progress) = ''generate-queries''
   \<and> length (completed_sections report_all_done) = length (sections report_all_done)
   \<and> name ` set (sections report_all_done) \<subseteq> name ` set (completed_sections report_all_done)
   \<and> routeTasks report_all_done = \<lparr>goto = ''compile-final-report'', update = None\<rparr>"
proof -
  have h1: "distinct (map name (sections report_in_progress))
      \<and> length (completed_sections report_in_progress) < length (sections report_in_progress)"
    by (simp add: report_in_progress_def intro_section_def body_section_def
        conclusion_section_def)
  have h2: "length (completed_sections report_all_done) = length (sections report_all_done)"
    by (simp add: report_all_done_def)
  have h3: "name ` set (sections report_all_done)
      \<subseteq> name ` set (completed_sections report_all_done)"
    by (simp add: report_all_done_def intro_section_def)
  from routeTasks_first_uncompleted [of report_in_progress] h1
  have h4: "sections report_in_progress \<noteq> []
      \<and> length (completed_sections report_in_progress) \<noteq> length (sections report_in_progress)
      \<and> \<not> name ` set (sections report_in_progress)
            \<subseteq> name ` set (completed_sections report_in_progress)"
    by blast
  with routeTasks_first_uncompleted [of report_in_progress] obtain pre s post where
    s: "sections report_in_progress = pre @ s # post"
       "name ` set pre \<subseteq> name ` set (completed_sections report_in_progress)"
       "name s \<notin> name ` set (completed_sections report_in_progress)"
       "research s \<longrightarrow> goto (routeTasks report_in_progress) = ''generate-queries''"
    by blast
  have "pre = [intro_section] \<and> s = body_section"
  proof (cases pre)
    case Nil
    with s(1,3) show ?thesis by (simp add: report_in_progress_def intro_section_def)
  next
    case (Cons a pre')
    note outer = Cons
    show ?thesis
    proof (cases pre')
      case Nil
      with outer s(1) show ?thesis by (simp add: report_in_progress_def)
    next
      case (Cons b pre'')
      with outer s(1) have "b = body_section" by (simp add: report_in_progress_def)
      with outer Cons s(2) show ?thesis
        by (simp add: report_in_progress_def intro_section_def body_section_def)
    qed
  qed
  then have "research s" by (simp add: body_section_def)
  with s(4) have g: "goto (routeTasks report_in_progress) = ''generate-queries''" by simp
  from routeTasks_first_uncompleted [of report_all_done] h2
  have c: "routeTasks report_all_done = \<lparr>goto = ''compile-final-report'', update = None\<rparr>"
    by blast
  from h1 h4 g h2 h3 c show ?thesis by blast
qed

text \<open>
  C1 as the specification words it fails where section names repeat: here \<open>sections\<close> is
  not empty and holds more entries than \<open>completed_sections\<close>, yet no section is selected
  and the directive is \<open>compile-final-report\<close>.
\<close>

theorem routeTasks_repeated_name_counterexample:
  "sections report_repeated_name \<noteq> []
   \<and> length (completed_sections report_repeated_name) < length (sections report_repeated_name)
   \<and> firstUncompletedSection (completed_sections report_repeated_name)
        (sections report_repeated_name) = None
   \<and> goto (routeTasks report_repeated_name) = ''compile-final-report''
   \<and> goto (routeTasks report_repeated_name) \<noteq> ''generate-queries''
   \<and> goto (routeTasks report_repeated_name) \<noteq> ''write-final-sections''"
  by (simp add: report_repeated_name_def body_section_def routeTasks_def isCompleted_def
      compile_directive_def)

section \<open>Properties of the refinement stages\<close>

subsection \<open>writeSection\<close>

text \<open>
  C3. When both calls of the generation capability return, \<open>writeSection\<close> returns the
  directive \<open>END\<close> with the update \<^verbatim>\<open>{completed_sections: [section]}\<close> exactly when the
  grade is \<open>pass\<close> or \<open>search_iterations\<close> has reached \<open>max_search_depth\<close>, and in exactly
  the other case the directive \<open>search-web\<close> with the grader's follow-up queries and the
  section. The section in either update is the state's section with the written text as
  its content.
\<close>

theorem writeSection_directive:
  "(writeSection cfg (Inr text) (Inr fb) st
      = Inr (st\<lparr>section := (section st)\<lparr>content := Some (Text text)\<rparr>\<rparr>,
             \<lparr>goto = ''END'',
              update = Some [''completed_sections'' \<mapsto>
                               JSections [(section st)\<lparr>content := Some (Text text)\<rparr>]]\<rparr>))
     = (grade fb = Pass \<or> search_iterations st \<ge> max_search_depth cfg)
   \<and> (writeSection cfg (Inr text) (Inr fb) st
      = Inr (st\<lparr>section := (section st)\<lparr>content := Some (Text text)\<rparr>\<rparr>,
             \<lparr>goto = ''search-web'',
              update = Some [''search_queries'' \<mapsto> JQueries (follow_up_queries fb),
                             ''section'' \<mapsto> JSection ((section st)\<lparr>content := Some (Text text)\<rparr>)]\<rparr>))
     = (\<not> (grade fb = Pass \<or> search_iterations st \<ge> max_search_depth cfg))"
  by (simp add: writeSection_def Let_def)

text \<open>A failing capability makes \<open>writeSection\<close> fail with the same error.\<close>

lemma writeSection_rejects:
  "writeSection cfg (Inl e) g st = Inl e"
  "writeSection cfg (Inr body) (Inl e) st = Inl e"
  by (simp_all add: writeSection_def Let_def)

subsection \<open>The search passes of one section\<close>

lemma searchWeb_iterations:
  "searchWeb r st = Inr (st1, p) \<Longrightarrow>
     search_iterations (mergeSectionState st1 p) = search_iterations st + 1"
  by (auto simp: searchWeb_def mergeSectionState_def split: sum.splits)

lemma writeSection_iterations:
  "writeSection cfg w g st = Inr (st2, cmd) \<Longrightarrow>
     search_iterations st2 = search_iterations st
   \<and> search_iterations (mergeSectionState st2 (updateOf cmd)) = search_iterations st
   \<and> (goto cmd = ''search-web'' \<longrightarrow> search_iterations st < max_search_depth cfg)"
  by (auto simp: writeSection_def Let_def updateOf_def mergeSectionState_def
      split: sum.splits if_splits)

subsection \<open>Sources of a section\<close>


lemma searchWeb_section:
  "searchWeb (Inr res) st = Inr (st1, p) \<Longrightarrow>
     section (mergeSectionState st1 p) = addSources (section st) (foundSources res)"
  by (auto simp: searchWeb_def mergeSectionState_def)

lemma pushNewSources_added:
  "\<exists>added. fst (pushNewSources (acc, seen) found) = acc @ added
      \<and> snd (pushNewSources (acc, seen) found) = seen \<union> set (map url added)
      \<and> distinct (map url added)
      \<and> set (map url added) = set (map url found) - seen"
proof (induction found arbitrary: acc seen)
  case Nil
  then show ?case by simp
next
  case (Cons source rest)
  show ?case
  proof (cases "url source \<in> seen")
    case True
    from Cons.IH [of acc seen] obtain added where
      a: "fst (pushNewSources (acc, seen) rest) = acc @ added"
         "snd (pushNewSources (acc, seen) rest) = seen \<union> set (map url added)"
         "distinct (map url added)"
         "set (map url added) = set (map url rest) - seen" by blast
    with True have "fst (pushNewSources (acc, seen) (source # rest)) = acc @ added
      \<and> snd (pushNewSources (acc, seen) (source # rest)) = seen \<union> set (map url added)
      \<and> distinct (map url added)
      \<and> set (map url added) = set (map url (source # rest)) - seen" by auto
    then show ?thesis by blast
  next
    case False
    from Cons.IH [of "acc @ [source]" "insert (url source) seen"] obtain added where
      a: "fst (pushNewSources (acc @ [source], insert (url source) seen) rest)
            = (acc @ [source]) @ added"
         "snd (pushNewSources (acc @ [source], insert (url source) seen) rest)
            = insert (url source) seen \<union> set (map url added)"
         "distinct (map url added)"
         "set (map url added) = set (map url rest) - insert (url source) seen" by blast
    with False have "fst (pushNewSources (acc, seen) (source # rest)) = acc @ (source # added)
      \<and> snd (pushNewSources (acc, seen) (source # rest))
          = seen \<union> set (map url (source # added))
      \<and> distinct (map url (source # added))
      \<and> set (map url (source # added)) = set (map url (source # rest)) - seen" by auto
    then show ?thesis by blast
  qed
qed

lemma addSources_added:
  "\<exists>added. sectionSources (addSources sec found) = sectionSources sec @ added
      \<and> distinct (map url added)
      \<and> set (map url added) = set (map url found) - set (map url (sectionSources sec))"
proof (cases "found = []")
  case True
  then have "sectionSources (addSources sec found) = sectionSources sec @ []
      \<and> distinct (map url [])
      \<and> set (map url []) = set (map url found) - set (map url (sectionSources sec))"
    by (simp add: addSources_def)
  then show ?thesis by blast
next
  case False
  then have "sectionSources (addSources sec found)
      = fst (pushNewSources (sectionSources sec, set (map url (sectionSources sec))) found)"
    by (simp add: addSources_def sectionSources_def Let_def)
  with pushNewSources_added [of "sectionSources sec" "set (map url (sectionSources sec))" found]
  show ?thesis by auto
qed

lemma searchPasses_added:
  "\<exists>added. sectionSources (section (searchPasses outputs st))
        = sectionSources (section st) @ added
      \<and> distinct (map url added)
      \<and> set (map url added)
          = (\<Union>res \<in> set outputs. set (map url (foundSources res)))
              - set (map url (sectionSources (section st)))"
proof (induction outputs arbitrary: st)
  case Nil
  then show ?case by simp
next
  case (Cons res rest)
  obtain st1 p where sw: "searchWeb (Inr res) st = Inr (st1, p)"
    by (simp add: searchWeb_def)
  let ?st' = "mergeSectionState st1 p"
  from searchWeb_section [OF sw] addSources_added [of "section st" "foundSources res"]
  obtain added1 where
    a1: "sectionSources (section ?st') = sectionSources (section st) @ added1"
        "distinct (map url added1)"
        "set (map url added1) = set (map url (foundSources res))
            - set (map url (sectionSources (section st)))" by auto
  from Cons.IH [of ?st'] obtain added2 where
    a2: "sectionSources (section (searchPasses rest ?st')) = sectionSources (section ?st') @ added2"
        "distinct (map url added2)"
        "set (map url added2) = (\<Union>res \<in> set rest. set (map url (foundSources res)))
            - set (map url (sectionSources (section ?st')))" by blast
  have "sectionSources (section (searchPasses (res # rest) st))
        = sectionSources (section st) @ (added1 @ added2)"
    using sw a1(1) a2(1) by simp
  moreover have "distinct (map url (added1 @ added2))"
    using a1(2) a2(2,3) a1(1) by auto
  moreover have "set (map url (added1 @ added2))
      = (\<Union>res \<in> set (res # rest). set (map url (foundSources res)))
          - set (map url (sectionSources (section st)))"
    using a1(1,3) a2(3) by auto
  ultimately show ?case by blast
qed

text \<open>
  C10. Whatever a sequence of search passes returns, the sources of the section after it
  are the sources it had before, in place, followed by added sources of which no two
  share a URL and none has a URL the section had before; the URLs present afterwards are
  those present before and those the searches returned. So a pass never adds a second
  entry for a URL: if no two sources of the section share a URL before the passes (as for
  a planned section, which has no sources yet), none do after them.
\<close>

theorem searchWeb_sources_unique:
  "(\<exists>added. sectionSources (section (searchPasses outputs st))
        = sectionSources (section st) @ added
      \<and> distinct (map url added)
      \<and> set (map url added) \<inter> set (map url (sectionSources (section st))) = {}
      \<and> set (map url added) \<union> set (map url (sectionSources (section st)))
          = (\<Union>res \<in> set outputs. set (map url (foundSources res)))
              \<union> set (map url (sectionSources (section st))))
   \<and> (distinct (map url (sectionSources (section st))) \<longrightarrow>
        distinct (map url (sectionSources (section (searchPasses outputs st)))))"
proof -
  from searchPasses_added [of outputs st] obtain added where
    a: "sectionSources (section (searchPasses outputs st)) = sectionSources (section st) @ added"
       "distinct (map url added)"
       "set (map url added) = (\<Union>res \<in> set outputs. set (map url (foundSources res)))
            - set (map url (sectionSources (section st)))" by blast
  from a(3) have d: "set (map url added) \<inter> set (map url (sectionSources (section st))) = {}"
    by blast
  from a(3) have u: "set (map url added) \<union> set (map url (sectionSources (section st)))
          = (\<Union>res \<in> set outputs. set (map url (foundSources res)))
              \<union> set (map url (sectionSources (section st)))" by blast
  have "distinct (map url (sectionSources (section st))) \<longrightarrow>
        distinct (map url (sectionSources (section (searchPasses outputs st))))"
    using a(1,2) d by auto
  with a(1,2) d u show ?thesis by blast
qed

text \<open>
  Two passes on a section without sources: the first search returns the sources A, B and
  A again, the second B and C. The section ends with A, B, C.
\<close>

theorem searchWeb_sources_unique_witness:
  "distinct (map url (sectionSources (section fresh_section_state)))
   \<and> distinct (map url (sectionSources (section
        (searchPasses [first_output, second_output] fresh_section_state))))
   \<and> sectionSources (section (searchPasses [first_output, second_output] fresh_section_state))
       = [source_a, source_b, source_c]"
proof -
  have h: "distinct (map url (sectionSources (section fresh_section_state)))"
    by (simp add: fresh_section_state_def body_section_def sectionSources_def)
  have e: "sectionSources (section (searchPasses [first_output, second_output]
      fresh_section_state)) = [source_a, source_b, source_c]"
    by code_simp
  from searchWeb_sources_unique [of "[first_output, second_output]" fresh_section_state] h
  have "distinct (map url (sectionSources (section
        (searchPasses [first_output, second_output] fresh_section_state))))"
    by blast
  with h e show ?thesis by blast
qed

text \<open>
  Between the searches of a section \<open>writeSection\<close> runs: it assigns the content and
  leaves the sources as they are.
\<close>

lemma addSources_keeps_unique:
  "distinct (map url (sectionSources sec)) \<Longrightarrow>
     distinct (map url (sectionSources (addSources sec found)))"
  using addSources_added [of sec found] by auto

lemma searchWeb_keeps_unique:
  "searchWeb r st = Inr (st1, p) \<Longrightarrow> distinct (map url (sectionSources (section st))) \<Longrightarrow>
     distinct (map url (sectionSources (section (mergeSectionState st1 p))))"
  by (cases r) (auto simp: searchWeb_def mergeSectionState_def addSources_keeps_unique)

lemma writeSection_sources:
  "writeSection cfg w g st = Inr (st2, cmd) \<Longrightarrow>
     sectionSources (section st2) = sectionSources (section st)
   \<and> sectionSources (section (mergeSectionState st2 (updateOf cmd)))
       = sectionSources (section st)"
  by (auto simp: writeSection_def Let_def updateOf_def mergeSectionState_def sectionSources_def
      split: sum.splits if_splits)

section \<open>Properties of MastraGraph.run\<close>

lemma writeSection_END_update:
  "writeSection cfg w gr ss = Inr (ss', command) \<Longrightarrow> goto command = ''END'' \<Longrightarrow>
     updateOf command = [''completed_sections'' \<mapsto> JSections [section ss']]"
  by (auto simp: writeSection_def Let_def updateOf_def split: sum.splits if_splits)

text \<open>
  C4. When the \<open>write-section\<close> node answers with the command \<open>writeSection\<close> returns
  for a finished section (\<open>goto = END\<close>), the turn of \<open>run\<close> continues with a state
  that is the state the node left with \<open>completed_sections\<close> replaced by the one-element
  list of that section: whatever \<open>completed_sections\<close> held before is gone, every other
  property is unchanged.
\<close>

theorem write_section_END_replaces_completed:
  "nodes g ''write-section'' = Some nodeFunc \<Longrightarrow>
   writeSection cfg w gr ss = Inr (ss', command) \<Longrightarrow>
   goto command = ''END'' \<Longrightarrow>
   nodeFunc currentState = Inr (stateAfterCall, CommandResult command) \<Longrightarrow>
     (\<exists>next. runTurn g ''write-section'' currentState
        = Continue next (stateAfterCall(''completed_sections'' \<mapsto> JSections [section ss'])))
   \<and> mergeState stateAfterCall (updateOf command) ''completed_sections''
        = Some (JSections [section ss'])"
proof -
  assume n: "nodes g ''write-section'' = Some nodeFunc"
    and w: "writeSection cfg w gr ss = Inr (ss', command)"
    and e: "goto command = ''END''"
    and f: "nodeFunc currentState = Inr (stateAfterCall, CommandResult command)"
  from writeSection_END_update [OF w e]
  have m: "mergeState stateAfterCall (updateOf command)
      = stateAfterCall(''completed_sections'' \<mapsto> JSections [section ss'])"
    by (simp add: mergeState_def)
  have "\<exists>next. runTurn g ''write-section'' currentState
        = Continue next (stateAfterCall(''completed_sections'' \<mapsto> JSections [section ss']))"
    using n f e m by (auto simp: runTurn_def Let_def split: option.splits)
  with m show ?thesis by simp
qed

text \<open>
  The theorem on a state in which the introduction is completed: after the turn of
  \<open>write-section\<close> for the body, \<open>completed_sections\<close> holds the body alone, and the next
  node is \<open>gather-completed-sections\<close>.
\<close>

theorem write_section_END_replaces_completed_witness:
  "nodes section_graph ''write-section'' = Some write_section_node
   \<and> writeSection default_configuration (Inr ''draft'') (Inr passing_feedback) fresh_section_state
       = Inr (fresh_section_state\<lparr>section := body_section\<lparr>content := Some (Text ''draft'')\<rparr>\<rparr>,
              \<lparr>goto = ''END'',
               update = Some [''completed_sections'' \<mapsto>
                  JSections [body_section\<lparr>content := Some (Text ''draft'')\<rparr>]]\<rparr>)
   \<and> object_with_intro_completed ''completed_sections''
       = Some (JSections [intro_section\<lparr>content := Some (Text ''Hello'')\<rparr>])
   \<and> runTurn section_graph ''write-section'' object_with_intro_completed
       = Continue ''gather-completed-sections''
           (object_with_intro_completed(''completed_sections'' \<mapsto>
              JSections [body_section\<lparr>content := Some (Text ''draft'')\<rparr>]))"
proof -
  let ?sec = "body_section\<lparr>content := Some (Text ''draft'')\<rparr>"
  let ?ss' = "fresh_section_state\<lparr>section := ?sec\<rparr>"
  let ?cmd = "\<lparr>goto = ''END'', update = Some [''completed_sections'' \<mapsto> JSections [?sec]]\<rparr>"
  have n: "nodes section_graph ''write-section'' = Some write_section_node"
    by (simp add: section_graph_def addConditionalEdge_def setEntryPoint_def addNode_def)
  have w: "writeSection default_configuration (Inr ''draft'') (Inr passing_feedback)
      fresh_section_state = Inr (?ss', ?cmd)"
    by (simp add: writeSection_def passing_feedback_def fresh_section_state_def Let_def)
  have e: "goto ?cmd = ''END''" by simp
  have f: "write_section_node object_with_intro_completed
      = Inr (object_with_intro_completed, CommandResult ?cmd)"
    by (simp add: write_section_node_def w)
  have o: "object_with_intro_completed ''completed_sections''
       = Some (JSections [intro_section\<lparr>content := Some (Text ''Hello'')\<rparr>])"
    by (simp add: object_with_intro_completed_def)
  from write_section_END_replaces_completed [OF n w e f] obtain "next" where
    t: "runTurn section_graph ''write-section'' object_with_intro_completed
        = Continue next (object_with_intro_completed(''completed_sections'' \<mapsto>
              JSections [section ?ss']))"
    by blast
  have "runTurn section_graph ''write-section'' object_with_intro_completed
      = Continue ''gather-completed-sections''
          (mergeState object_with_intro_completed (updateOf ?cmd))"
    by (simp add: runTurn_def n f Let_def section_graph_def addConditionalEdge_def
        setEntryPoint_def addNode_def newMastraGraph_def)
  with t have "next = ''gather-completed-sections''" by simp
  with t n w o show ?thesis by simp
qed

lemma stillRunning_runLoop:
  "stillRunning g k node st = Some (node', st') \<Longrightarrow> runLoop g k node st = Inr st'"
proof (induction k arbitrary: node st)
  case 0
  then show ?case by simp
next
  case (Suc k)
  then show ?case by (cases "runTurn g node st") simp_all
qed

text \<open>
  C5, as the code has it. When the execution of a graph is still going on after
  \<open>maxSteps\<close> turns, \<open>run\<close> does not fail: it returns the state reached by then.
\<close>

theorem run_returns_state_at_step_bound:
  "entryPoint g = Some entry \<Longrightarrow> entry \<noteq> [] \<Longrightarrow>
   stillRunning g maxSteps entry initialState = Some (node, st) \<Longrightarrow>
     run g initialState = Inr st"
  by (simp add: run_def stillRunning_runLoop)

lemma cyclic_turn:
  "runTurn cyclic_graph ''again'' st
     = Continue ''again''
         (st(''visits'' \<mapsto>
            (case st ''visits'' of Some (JNum n) \<Rightarrow> JNum (n + 1) | _ \<Rightarrow> JNum 1)))"
  by (simp add: runTurn_def cyclic_graph_def addEdge_def setEntryPoint_def addNode_def
      newMastraGraph_def counting_node_def mergeState_def)

lemma cyclic_still_running:
  "stillRunning cyclic_graph maxSteps ''again'' initial_object
     = Some (''again'', initial_object(''visits'' \<mapsto> JNum 20))"
  by (simp add: maxSteps_def numeral_eq_Suc cyclic_turn initial_object_def)

text \<open>The theorem on the graph whose only node leads back to itself.\<close>

theorem run_returns_state_at_step_bound_witness:
  "entryPoint cyclic_graph = Some ''again'' \<and> ''again'' \<noteq> []
   \<and> stillRunning cyclic_graph maxSteps ''again'' initial_object
       = Some (''again'', initial_object(''visits'' \<mapsto> JNum 20))
   \<and> run cyclic_graph initial_object = Inr (initial_object(''visits'' \<mapsto> JNum 20))"
proof -
  have e: "entryPoint cyclic_graph = Some ''again''"
    by (simp add: cyclic_graph_def addEdge_def setEntryPoint_def)
  have ne: "''again'' \<noteq> []" by simp
  from run_returns_state_at_step_bound [OF e ne cyclic_still_running] e cyclic_still_running
  show ?thesis by simp
qed

text \<open>
  C5 as the specification words it fails: the execution of this graph reaches the step
  bound without terminating, and \<open>run\<close> returns the state of the twentieth turn as its
  result instead of failing.
\<close>

theorem run_step_bound_counterexample:
  "stillRunning cyclic_graph maxSteps ''again'' initial_object
       = Some (''again'', initial_object(''visits'' \<mapsto> JNum 20))
   \<and> run cyclic_graph initial_object = Inr (initial_object(''visits'' \<mapsto> JNum 20))
   \<and> run cyclic_graph initial_object \<noteq> Inl (Thrown ''Workflow exceeded maximum steps.'')"
proof -
  have e: "entryPoint cyclic_graph = Some ''again''"
    by (simp add: cyclic_graph_def addEdge_def setEntryPoint_def)
  have l: "runLoop cyclic_graph maxSteps ''again'' initial_object
      = Inr (initial_object(''visits'' \<mapsto> JNum 20))"
    by (simp add: maxSteps_def numeral_eq_Suc cyclic_turn initial_object_def)
  from e l have "run cyclic_graph initial_object
      = Inr (initial_object(''visits'' \<mapsto> JNum 20))"
    by (simp add: run_def)
  with cyclic_still_running show ?thesis by simp
qed

section \<open>Properties of compileFinalReport\<close>

subsection \<open>Compiling twice\<close>

lemma completedContents_snoc:
  "completedContents (xs @ [c])
     = (if name c = ''__proto__'' then completedContents xs
        else (completedContents xs)(name c \<mapsto> content c))"
  by (simp add: completedContents_def)

lemma completedContents_proto: "completedContents xs ''__proto__'' = None"
  by (induction xs rule: rev_induct) (simp_all add: completedContents_snoc, simp add: completedContents_def)




lemma completedContents_last_wins:
  "completedContents completed n
     = (if n = ''__proto__'' then None
        else map_of (rev (map (\<lambda>c. (name c, content c)) completed)) n)"
proof (induction completed rule: rev_induct)
  case Nil
  then show ?case by (simp add: completedContents_def)
next
  case (snoc c completed)
  then show ?case by (simp add: completedContents_snoc completedContents_proto)
qed






subsection \<open>The compiled text\<close>



















lemma isDecimalOf_unique_value: "isDecimalOf n s \<Longrightarrow> isDecimalOf m s \<Longrightarrow> n = m"
  by (simp add: isDecimalOf_def)





text \<open>The report of three sections that were completed out of order.\<close>

lemma compileFinalReport_example:
  "snd (compileFinalReport report_to_compile)
     = ''Hello'' @ [newline, newline] @ ''Body'' @ [newline, newline] @ ''Bye''
       @ references_heading
       @ ''1. [B](https://b.example)'' @ [newline]
       @ ''2. [A](https://a.example)'' @ [newline]"
  by code_simp

text \<open>
  A section named \<open>constructor\<close> that is not completed: the merge reads the inherited
  property of that name, a function, and the report holds the function's text in place
  of the section's own text.
\<close>

lemma compileFinalReport_inherited_name:
  "snd (compileFinalReport report_with_inherited_name)
     = ''function Object() { [native code] }'' @ [newline, newline] @ ''Bye''"
  by code_simp

section \<open>Properties of tavilySearchAsync\<close>

subsection \<open>A failing query in a batch\<close>

text \<open>
  C6 says that a query failing with an error that is not a rate limit yields an
  error-tagged empty result for that query only, and that the call returns a successful
  result for every query that succeeded. \<open>tavilySearchAsync\<close> does not do so within a
  batch. Here the provider answers the query \<open>a\<close> and fails on the query \<open>b\<close>, and both
  are in one batch: the call returns an error response for each of them, and no successful
  result.
\<close>

theorem tavilySearchAsync_batch_failure:
  "client_a_only ''a'' 5 ''general'' True = Inr answer_a
   \<and> fst (tavilySearchAsync client_a_only searchCache_initial [''a'', ''b''] 5 ''general'' True)
     = [errorResponse ''a'' ''Request failed with status code 500'',
        errorResponse ''b'' ''Request failed with status code 500'']"
  by code_simp

text \<open>
  The failure stays within its batch: here the third query is alone in the second batch.
\<close>

lemma tavilySearchAsync_other_batch:
  "fst (tavilySearchAsync client_a_only searchCache_initial [''b'', ''x'', ''a''] 5 ''general'' True)
     = [errorResponse ''b'' ''Request failed with status code 500'',
        errorResponse ''x'' ''Request failed with status code 500'',
        answer_a]"
  by code_simp

subsection \<open>The cache\<close>




















end
